theory Spec2Isabelle
  imports Main
begin

section \<open>The mock telemetry server: data and the Python library it calls\<close>

text \<open>
  The program is \<^verbatim>\<open>src/lib/defend/mock_telemetry.py\<close>: a request handler with
  \<^verbatim>\<open>do_POST\<close> and \<^verbatim>\<open>do_GET\<close>, \<^verbatim>\<open>start_server\<close> and \<^verbatim>\<open>main\<close>.

  Python values are modelled as Python has them:
  \<^item> a \<^verbatim>\<open>bytes\<close> object is a list of bytes (\<open>char list\<close>, one \<open>char\<close> per byte);
  \<^item> a \<^verbatim>\<open>str\<close> is a list of Unicode code points (\<open>nat list\<close>);
  \<^item> the names and values held by \<^verbatim>\<open>self.headers\<close> are \<^verbatim>\<open>str\<close> objects that
    \<^verbatim>\<open>http.client.parse_headers\<close> decoded as ISO-8859-1, so each of their characters is one
    of the 256 Latin-1 code points: they are \<open>char list\<close>, the \<open>char\<close> being the code point;
  \<^item> an exception is a value carrying the text of \<^verbatim>\<open>str(e)\<close>.

  What the wall clock, the socket and the bind call return is input to the model. The console
  (\<^verbatim>\<open>sys.stdout\<close>) and the log file are text sinks that accept every \<^verbatim>\<open>str\<close> (a UTF-8
  locale) and whose \<^verbatim>\<open>open\<close> and \<^verbatim>\<open>write\<close> succeed; \<^verbatim>\<open>rfile\<close> is the byte
  sequence the client sends after the header block up to the end of its stream.
\<close>

type_synonym bytes = "char list"
type_synonym latin1 = "char list"
type_synonym pystr = "nat list"

definition U :: "string \<Rightarrow> pystr" where
  "U s = map of_char s"

definition NL :: pystr where
  "NL = [10]"

datatype exn =
    ValueError pystr
  | OverflowError pystr
  | UnicodeDecodeError pystr
  | UnicodeEncodeError pystr
  | OtherException pystr

fun exn_str :: "exn \<Rightarrow> pystr" where
  "exn_str (ValueError m) = m"
| "exn_str (OverflowError m) = m"
| "exn_str (UnicodeDecodeError m) = m"
| "exn_str (UnicodeEncodeError m) = m"
| "exn_str (OtherException m) = m"

subsection \<open>\<^verbatim>\<open>str(n)\<close>, hexadecimal digits\<close>

function nat_digits :: "nat \<Rightarrow> pystr" where
  "nat_digits n = (if n < 10 then [48 + n] else nat_digits (n div 10) @ [48 + n mod 10])"
  by pat_completeness auto
termination
  by (relation "measure id") auto

declare nat_digits.simps [simp del]

definition str_int :: "int \<Rightarrow> pystr" where
  "str_int i = (if i < 0 then 45 # nat_digits (nat (- i)) else nat_digits (nat i))"

definition hex_digit :: "nat \<Rightarrow> nat" where
  "hex_digit d = (if d < 10 then 48 + d else 87 + d)"

text \<open>\<^verbatim>\<open>'%02x' % n\<close> and \<^verbatim>\<open>'%04x' % n\<close> for the ranges they are used on.\<close>

definition hex2 :: "nat \<Rightarrow> pystr" where
  "hex2 n = [hex_digit (n div 16 mod 16), hex_digit (n mod 16)]"

definition hex4 :: "nat \<Rightarrow> pystr" where
  "hex4 n = [hex_digit (n div 4096 mod 16), hex_digit (n div 256 mod 16),
             hex_digit (n div 16 mod 16), hex_digit (n mod 16)]"

subsection \<open>\<^verbatim>\<open>self.headers\<close>: \<^verbatim>\<open>get\<close> and \<^verbatim>\<open>dict(...)\<close>\<close>

text \<open>\<^verbatim>\<open>str.lower\<close> on a Latin-1 character.\<close>

definition lower_char :: "char \<Rightarrow> char" where
  "lower_char c =
     (let n = (of_char c :: nat) in
      if (65 \<le> n \<and> n \<le> 90) \<or> (192 \<le> n \<and> n \<le> 222 \<and> n \<noteq> 215) then char_of (n + 32) else c)"

definition lower :: "latin1 \<Rightarrow> latin1" where
  "lower s = map lower_char s"

text \<open>
  \<^verbatim>\<open>Message.get(name, failobj)\<close>: the value of the first header whose name equals
  \<^verbatim>\<open>name\<close> up to case; \<open>None\<close> stands for \<^verbatim>\<open>failobj\<close>.
\<close>

fun headers_get :: "(latin1 \<times> latin1) list \<Rightarrow> latin1 \<Rightarrow> latin1 option" where
  "headers_get [] name = None"
| "headers_get ((k, v) # hs) name =
     (if lower k = lower name then Some v else headers_get hs name)"

text \<open>
  \<^verbatim>\<open>dict(self.headers)\<close> runs \<^verbatim>\<open>d[k] = self.headers[k]\<close> over \<^verbatim>\<open>keys()\<close>: a key that is
  already there keeps its place, and \<^verbatim>\<open>self.headers[k]\<close> is \<^verbatim>\<open>get(k)\<close>, that is
  \<^verbatim>\<open>None\<close> when nothing matches.
\<close>

fun dict_set :: "('k \<times> 'v) list \<Rightarrow> 'k \<Rightarrow> 'v \<Rightarrow> ('k \<times> 'v) list" where
  "dict_set [] k v = [(k, v)]"
| "dict_set ((k', v') # d) k v = (if k' = k then (k', v) # d else (k', v') # dict_set d k v)"

definition headers_dict :: "(latin1 \<times> latin1) list \<Rightarrow> (latin1 \<times> latin1 option) list" where
  "headers_dict hs = foldl (\<lambda>d k. dict_set d k (headers_get hs k)) [] (map fst hs)"

subsection \<open>\<^verbatim>\<open>repr\<close> of a \<^verbatim>\<open>str\<close>, of \<^verbatim>\<open>bytes\<close> and of the header dictionary\<close>

definition repr_quote :: "char list \<Rightarrow> char" where
  "repr_quote s = (if CHR 0x27 \<in> set s \<and> CHR 0x22 \<notin> set s then CHR 0x22 else CHR 0x27)"

text \<open>
  One character of a \<^verbatim>\<open>str\<close> inside \<^verbatim>\<open>repr\<close>. Of the Latin-1 code points, those below
  U+0020, U+007F to U+00A0 and U+00AD are not printable and are written \<^verbatim>\<open>\xNN\<close>.
\<close>

definition repr_str_char :: "char \<Rightarrow> char \<Rightarrow> pystr" where
  "repr_str_char quote c =
     (let n = (of_char c :: nat) in
      if c = quote \<or> c = CHR 0x5C then [92, n]
      else if n = 9 then [92, 116]
      else if n = 10 then [92, 110]
      else if n = 13 then [92, 114]
      else if n < 32 \<or> (127 \<le> n \<and> n \<le> 160) \<or> n = 173 then [92, 120] @ hex2 n
      else [n])"

definition repr_str :: "latin1 \<Rightarrow> pystr" where
  "repr_str s =
     (let quote = repr_quote s in
      [of_char quote] @ concat (map (repr_str_char quote) s) @ [of_char quote])"

definition repr_bytes_char :: "char \<Rightarrow> char \<Rightarrow> pystr" where
  "repr_bytes_char quote c =
     (let n = (of_char c :: nat) in
      if c = quote \<or> c = CHR 0x5C then [92, n]
      else if n = 9 then [92, 116]
      else if n = 10 then [92, 110]
      else if n = 13 then [92, 114]
      else if n < 32 \<or> 127 \<le> n then [92, 120] @ hex2 n
      else [n])"

definition repr_bytes :: "bytes \<Rightarrow> pystr" where
  "repr_bytes b =
     (let quote = repr_quote b in
      [98, of_char quote] @ concat (map (repr_bytes_char quote) b) @ [of_char quote])"

definition repr_value :: "latin1 option \<Rightarrow> pystr" where
  "repr_value v = (case v of None \<Rightarrow> U ''None'' | Some s \<Rightarrow> repr_str s)"

fun join :: "pystr \<Rightarrow> pystr list \<Rightarrow> pystr" where
  "join sep [] = []"
| "join sep [x] = x"
| "join sep (x # y # ys) = x @ sep @ join sep (y # ys)"

definition repr_dict :: "(latin1 \<times> latin1 option) list \<Rightarrow> pystr" where
  "repr_dict d =
     U ''{'' @ join (U '', '') (map (\<lambda>(k, v). repr_str k @ U '': '' @ repr_value v) d) @ U ''}''"

subsection \<open>\<^verbatim>\<open>int(s)\<close> on a header value\<close>

text \<open>
  \<^verbatim>\<open>int\<close> in base 10 on a \<^verbatim>\<open>str\<close>: white space is stripped at both ends, one sign is
  allowed, then decimal digits, single underscores allowed between two digits; more than 4300
  digits are refused (the default \<^verbatim>\<open>sys.int_info.default_max_str_digits\<close>). Everything
  else raises \<^verbatim>\<open>ValueError\<close>. Among the Latin-1 code points the white space is
  tab, line feed, vertical tab, form feed, carriage return, the space, U+0085 and U+00A0, and the decimal digits are 0 to 9.
\<close>

definition int_space :: "char \<Rightarrow> bool" where
  "int_space c = (of_char c \<in> {9, 10, 11, 12, 13, 32, 133, 160 :: nat})"

definition is_digit :: "char \<Rightarrow> bool" where
  "is_digit c = (48 \<le> (of_char c :: nat) \<and> (of_char c :: nat) \<le> 57)"

definition strip_int :: "latin1 \<Rightarrow> latin1" where
  "strip_int s = rev (dropWhile int_space (rev (dropWhile int_space s)))"

fun parse_digits :: "latin1 \<Rightarrow> nat \<Rightarrow> nat option" where
  "parse_digits [] acc = None"
| "parse_digits (c # cs) acc =
     (if is_digit c then
        (let a = acc * 10 + (of_char c - 48) in
         case cs of
           [] \<Rightarrow> Some a
         | u # rest \<Rightarrow> if u = CHR ''_'' then parse_digits rest a else parse_digits cs a)
      else None)"

definition invalid_literal :: "latin1 \<Rightarrow> exn" where
  "invalid_literal s = ValueError (U ''invalid literal for int() with base 10: '' @ repr_str s)"

definition py_int :: "latin1 \<Rightarrow> exn + int" where
  "py_int s =
     (let t = strip_int s;
          neg = (case t of c # _ \<Rightarrow> c = CHR ''-'' | [] \<Rightarrow> False);
          body = (case t of c # cs \<Rightarrow> if c = CHR ''-'' \<or> c = CHR ''+'' then cs else t | [] \<Rightarrow> t)
      in case parse_digits body 0 of
           None \<Rightarrow> Inl (invalid_literal s)
         | Some n \<Rightarrow>
             if 4300 < length (filter is_digit body)
             then Inl (ValueError (U ''Exceeds the limit (4300 digits) for integer string conversion''))
             else Inr (if neg then - int n else int n))"

subsection \<open>\<^verbatim>\<open>rfile.read(n)\<close>\<close>

text \<open>
  \<^verbatim>\<open>rfile\<close> is a \<^verbatim>\<open>BufferedReader\<close>: \<^verbatim>\<open>read(n)\<close> returns the next \<open>n\<close> bytes, or
  what is left when the stream ends before; \<^verbatim>\<open>read(-1)\<close> reads to the end of the stream; a
  length below \<open>-1\<close> raises \<^verbatim>\<open>ValueError\<close>, and one that does not fit the index type
  (64 bits) raises \<^verbatim>\<open>OverflowError\<close>.
\<close>

definition rfile_read :: "int \<Rightarrow> bytes \<Rightarrow> exn + bytes" where
  "rfile_read n stream =
     (if n < - (2 ^ 63) \<or> 2 ^ 63 \<le> n
      then Inl (OverflowError (U ''cannot fit int into an index-sized integer''))
      else if n < - 1 then Inl (ValueError (U ''read length must be non-negative or -1''))
      else if n = - 1 then Inr stream
      else Inr (take (nat n) stream))"

subsection \<open>\<^verbatim>\<open>bytes.decode('utf-8', errors=...)\<close> and \<^verbatim>\<open>str.encode()\<close>\<close>

definition is_cont :: "nat \<Rightarrow> bool" where
  "is_cont b = (128 \<le> b \<and> b < 192)"

text \<open>The length of the sequence a lead byte announces; 0 for a byte that cannot start one.\<close>

definition seq_len :: "nat \<Rightarrow> nat" where
  "seq_len b =
     (if b < 128 then 1 else if b < 194 then 0 else if b < 224 then 2
      else if b < 240 then 3 else if b < 245 then 4 else 0)"

text \<open>The second byte: a continuation byte that makes no overlong form, surrogate or
  code point above U+10FFFF.\<close>

definition second_ok :: "nat \<Rightarrow> nat \<Rightarrow> bool" where
  "second_ok b c =
     (is_cont c \<and> \<not> (b = 224 \<and> c < 160) \<and> \<not> (b = 237 \<and> 160 \<le> c)
      \<and> \<not> (b = 240 \<and> c < 144) \<and> \<not> (b = 244 \<and> 144 \<le> c))"

datatype chunk = Scalar nat | IllFormed "nat list" pystr

definition invalid_start :: pystr where
  "invalid_start = U ''invalid start byte''"

definition invalid_continuation :: pystr where
  "invalid_continuation = U ''invalid continuation byte''"

definition unexpected_end :: pystr where
  "unexpected_end = U ''unexpected end of data''"

text \<open>
  The decoder cuts the bytes into code points and ill-formed runs. An ill-formed run is the
  lead byte with the continuation bytes accepted so far: that is what the error of the strict
  decoder reports and what \<^verbatim>\<open>errors='ignore'\<close> skips.
\<close>

fun utf8_chunks :: "nat list \<Rightarrow> chunk list" where
  "utf8_chunks [] = []"
| "utf8_chunks (b # bs) =
     (if seq_len b = 0 then (IllFormed [b] invalid_start # utf8_chunks bs)
      else if seq_len b = 1 then (Scalar b # utf8_chunks bs)
      else (case bs of
        [] \<Rightarrow> [IllFormed [b] unexpected_end]
      | c # cs \<Rightarrow>
          if \<not> second_ok b c then (IllFormed [b] invalid_continuation # utf8_chunks bs)
          else if seq_len b = 2 then (Scalar ((b - 192) * 64 + (c - 128)) # utf8_chunks cs)
          else (case cs of
            [] \<Rightarrow> [IllFormed [b, c] unexpected_end]
          | d # ds \<Rightarrow>
              if \<not> is_cont d then (IllFormed [b, c] invalid_continuation # utf8_chunks cs)
              else if seq_len b = 3
              then (Scalar ((b - 224) * 4096 + (c - 128) * 64 + (d - 128)) # utf8_chunks ds)
              else (case ds of
                [] \<Rightarrow> [IllFormed [b, c, d] unexpected_end]
              | e # es \<Rightarrow>
                  if \<not> is_cont e
                  then (IllFormed [b, c, d] invalid_continuation # utf8_chunks ds)
                  else (Scalar ((b - 240) * 262144 + (c - 128) * 4096 + (d - 128) * 64
                                + (e - 128)) # utf8_chunks es)))))"

definition scalar_len :: "nat \<Rightarrow> nat" where
  "scalar_len cp = (if cp < 128 then 1 else if cp < 2048 then 2 else if cp < 65536 then 3 else 4)"

text \<open>The text of a \<^verbatim>\<open>UnicodeDecodeError\<close>; 39 is the single quote.\<close>

definition decode_error :: "nat \<Rightarrow> nat list \<Rightarrow> pystr \<Rightarrow> exn" where
  "decode_error pos run reason =
     UnicodeDecodeError
       (case run of
          [b] \<Rightarrow> [39] @ U ''utf-8'' @ [39] @ U '' codec can'' @ [39] @ U ''t decode byte 0x''
                  @ hex2 b @ U '' in position '' @ nat_digits pos @ U '': '' @ reason
        | _ \<Rightarrow> [39] @ U ''utf-8'' @ [39] @ U '' codec can'' @ [39]
                @ U ''t decode bytes in position '' @ nat_digits pos @ U ''-''
                @ nat_digits (pos + length run - 1) @ U '': '' @ reason)"

fun decode_strict :: "nat \<Rightarrow> chunk list \<Rightarrow> exn + pystr" where
  "decode_strict pos [] = Inr []"
| "decode_strict pos (Scalar cp # cs) =
     (case decode_strict (pos + scalar_len cp) cs of Inl e \<Rightarrow> Inl e | Inr s \<Rightarrow> Inr (cp # s))"
| "decode_strict pos (IllFormed run reason # cs) = Inl (decode_error pos run reason)"

fun decode_ignore :: "chunk list \<Rightarrow> pystr" where
  "decode_ignore [] = []"
| "decode_ignore (Scalar cp # cs) = cp # decode_ignore cs"
| "decode_ignore (IllFormed run reason # cs) = decode_ignore cs"

datatype errors = Strict | Ignore

fun bytes_decode :: "errors \<Rightarrow> bytes \<Rightarrow> exn + pystr" where
  "bytes_decode Strict b = decode_strict 0 (utf8_chunks (map of_char b))"
| "bytes_decode Ignore b = Inr (decode_ignore (utf8_chunks (map of_char b)))"

text \<open>\<^verbatim>\<open>s.encode()\<close>: UTF-8, which has no encoding for the surrogate code points.\<close>

definition encode_cp :: "nat \<Rightarrow> bytes option" where
  "encode_cp cp =
     (if cp < 128 then Some [char_of cp]
      else if cp < 2048 then Some [char_of (192 + cp div 64), char_of (128 + cp mod 64)]
      else if 55296 \<le> cp \<and> cp < 57344 then None
      else if cp < 65536
      then Some [char_of (224 + cp div 4096), char_of (128 + cp div 64 mod 64),
                 char_of (128 + cp mod 64)]
      else if cp < 1114112
      then Some [char_of (240 + cp div 262144), char_of (128 + cp div 4096 mod 64),
                 char_of (128 + cp div 64 mod 64), char_of (128 + cp mod 64)]
      else None)"

fun str_encode :: "pystr \<Rightarrow> exn + bytes" where
  "str_encode [] = Inr []"
| "str_encode (cp # s) =
     (case encode_cp cp of
        None \<Rightarrow> Inl (UnicodeEncodeError (U ''surrogates not allowed''))
      | Some b \<Rightarrow> (case str_encode s of Inl e \<Rightarrow> Inl e | Inr bs \<Rightarrow> Inr (b @ bs)))"

subsection \<open>\<^verbatim>\<open>json.dumps\<close> of a dictionary of strings\<close>

text \<open>
  With the default \<^verbatim>\<open>ensure_ascii=True\<close> every character outside the printable ASCII
  range, the quote and the backslash are escaped; the separators are a comma and a colon, each
  followed by a space.
\<close>

definition json_escape :: "nat \<Rightarrow> pystr" where
  "json_escape n =
     (if n = 34 then [92, 34]
      else if n = 92 then [92, 92]
      else if n = 10 then [92, 110]
      else if n = 13 then [92, 114]
      else if n = 9 then [92, 116]
      else if n = 8 then [92, 98]
      else if n = 12 then [92, 102]
      else if n < 32 \<or> 126 < n then
        (if n < 65536 then [92, 117] @ hex4 n
         else [92, 117] @ hex4 (55296 + (n - 65536) div 1024 mod 1024)
              @ [92, 117] @ hex4 (56320 + (n - 65536) mod 1024))
      else [n])"

definition json_dumps_str :: "pystr \<Rightarrow> pystr" where
  "json_dumps_str s = [34] @ concat (map json_escape s) @ [34]"

definition json_dumps :: "(pystr \<times> pystr) list \<Rightarrow> pystr" where
  "json_dumps d =
     U ''{'' @ join (U '', '') (map (\<lambda>(k, v). json_dumps_str k @ U '': '' @ json_dumps_str v) d)
     @ U ''}''"

section \<open>The request handler\<close>

text \<open>
  What a handler reads from \<^verbatim>\<open>self\<close>: \<^verbatim>\<open>client_address[0]\<close>, \<^verbatim>\<open>path\<close>, \<^verbatim>\<open>headers\<close>
  (names and values in arrival order) and the bytes that \<^verbatim>\<open>rfile\<close> still holds.
\<close>

record request =
  client_address :: pystr
  path :: pystr
  headers :: "(latin1 \<times> latin1) list"
  rfile :: bytes

text \<open>
  What the handlers write outside the connection: the texts passed to \<^verbatim>\<open>print\<close>, in order,
  and the content of \<^verbatim>\<open>intercepted_telemetry.log\<close> (\<open>None\<close> while the file does not
  exist).
\<close>

record world =
  console :: "pystr list"
  logfile :: "pystr option"

text \<open>What went out on \<^verbatim>\<open>wfile\<close>: the status of \<^verbatim>\<open>send_response\<close>, the headers of
  \<^verbatim>\<open>send_header\<close> and the bytes written after \<^verbatim>\<open>end_headers\<close>.\<close>

record response =
  resp_status :: nat
  resp_headers :: "(pystr \<times> pystr) list"
  resp_body :: bytes

text \<open>
  The result of one handler call: the exception that left the handler, if any (the socket
  server then closes the connection), what was sent to the client, and the world afterwards.
\<close>

record outcome =
  raised :: "exn option"
  reply :: "response option"
  world_after :: world

text \<open>
  \<^verbatim>\<open>json.loads\<close> and the rendering of the parsed value inside an f-string are library code
  that is taken as a parameter: both either raise or return.
\<close>

record 'j json_module =
  json_loads :: "pystr \<Rightarrow> exn + 'j"
  format_value :: "'j \<Rightarrow> exn + pystr"

definition print :: "pystr \<Rightarrow> world \<Rightarrow> world" where
  "print s w = w\<lparr>console := console w @ [s]\<rparr>"

definition print_all :: "pystr list \<Rightarrow> world \<Rightarrow> world" where
  "print_all ls w = foldl (\<lambda>w s. print s w) w ls"

text \<open>\<^verbatim>\<open>open(..., 'a')\<close> creates the file when it is missing; \<^verbatim>\<open>open(..., 'w')\<close> empties it.\<close>

definition file_append :: "pystr \<Rightarrow> world \<Rightarrow> world" where
  "file_append text w =
     w\<lparr>logfile := Some (case logfile w of None \<Rightarrow> text | Some old \<Rightarrow> old @ text)\<rparr>"

definition file_rewrite :: "pystr \<Rightarrow> world \<Rightarrow> world" where
  "file_rewrite text w = w\<lparr>logfile := Some text\<rparr>"

definition startswith :: "'a list \<Rightarrow> 'a list \<Rightarrow> bool" where
  "startswith s p = (take (length p) s = p)"

text \<open>Line 17: \<^verbatim>\<open>int(self.headers.get('Content-Length', 0))\<close>.\<close>

definition content_length :: "request \<Rightarrow> exn + int" where
  "content_length req =
     (case headers_get (headers req) ''Content-Length'' of
        None \<Rightarrow> Inr 0
      | Some v \<Rightarrow> py_int v)"

text \<open>\<^verbatim>\<open>self.headers.get('Content-Type', '')\<close>.\<close>

definition content_type :: "request \<Rightarrow> latin1" where
  "content_type req =
     (case headers_get (headers req) ''Content-Type'' of
        None \<Rightarrow> []
      | Some v \<Rightarrow> v)"

text \<open>
  Lines 30 to 40, the body of the \<^verbatim>\<open>try\<close>: the texts printed, and the exception that ended
  it, if any.
\<close>

definition try_analyze :: "'j json_module \<Rightarrow> request \<Rightarrow> bytes \<Rightarrow> pystr list \<times> exn option" where
  "try_analyze js req post_data =
     (if startswith (content_type req) ''application/json'' then
        (case bytes_decode Strict post_data of
           Inl e \<Rightarrow> ([], Some e)
         | Inr decoded \<Rightarrow>
             (case json_loads js decoded of
                Inl e \<Rightarrow> ([], Some e)
              | Inr json_data \<Rightarrow>
                  (case format_value js json_data of
                     Inl e \<Rightarrow> ([], Some e)
                   | Inr shown \<Rightarrow> ([U ''  JSON Data: '' @ shown], None))))
      else if startswith (content_type req) ''application/x-protobuf'' then
        ([U ''  Protocol Buffers data (binary): '' @ str_int (int (length post_data))
            @ U '' bytes'',
          U ''  Sample: '' @ repr_bytes (take 100 post_data) @ U ''...''], None)
      else
        (case bytes_decode Ignore post_data of
           Inl e \<Rightarrow> ([], Some e)
         | Inr decoded \<Rightarrow> ([U ''  Raw data: '' @ take 200 decoded @ U ''...''], None)))"

text \<open>Lines 29 to 42: the \<^verbatim>\<open>try\<close> with its \<^verbatim>\<open>except Exception as e\<close>.\<close>

definition analyze_content :: "'j json_module \<Rightarrow> request \<Rightarrow> bytes \<Rightarrow> pystr list" where
  "analyze_content js req post_data =
     (case try_analyze js req post_data of
        (printed, None) \<Rightarrow> printed
      | (printed, Some e) \<Rightarrow> printed @ [U ''  Data parsing error: '' @ exn_str e])"

text \<open>Lines 45 to 53: what the \<^verbatim>\<open>with\<close> block writes to the log file.\<close>

definition log_entry :: "pystr \<Rightarrow> request \<Rightarrow> bytes \<Rightarrow> pystr" where
  "log_entry timestamp req post_data =
     timestamp @ U '' - '' @ str_int (int (length post_data)) @ U '' bytes from ''
       @ client_address req @ NL
     @ U ''Headers: '' @ repr_dict (headers_dict (headers req)) @ NL
     @ (case bytes_decode Ignore post_data of
          Inr decoded_data \<Rightarrow> U ''Data: '' @ decoded_data @ NL
        | Inl e \<Rightarrow> U ''Binary data: '' @ str_int (int (length post_data)) @ U '' bytes'' @ NL)
     @ U ''---'' @ NL"

definition json_headers :: "(pystr \<times> pystr) list" where
  "json_headers = [(U ''Content-type'', U ''application/json'')]"

text \<open>
  Sending the answer (lines 56 to 66 and 73 to 82): status and header are out before
  \<^verbatim>\<open>json.dumps(response).encode()\<close> is evaluated.
\<close>

definition send_json :: "(pystr \<times> pystr) list \<Rightarrow> world \<Rightarrow> outcome" where
  "send_json response w =
     (case str_encode (json_dumps response) of
        Inl e \<Rightarrow>
          \<lparr>raised = Some e,
           reply = Some \<lparr>resp_status = 200, resp_headers = json_headers, resp_body = []\<rparr>,
           world_after = w\<rparr>
      | Inr b \<Rightarrow>
          \<lparr>raised = None,
           reply = Some \<lparr>resp_status = 200, resp_headers = json_headers, resp_body = b\<rparr>,
           world_after = w\<rparr>)"

text \<open>
  \<^verbatim>\<open>do_POST\<close>. \<open>now\<close> is what \<^verbatim>\<open>time.strftime('%Y-%m-%d %H:%M:%S')\<close> returns on line 21.
\<close>

definition do_POST :: "'j json_module \<Rightarrow> pystr \<Rightarrow> request \<Rightarrow> world \<Rightarrow> outcome" where
  "do_POST js now req w =
     (case content_length req of
        Inl e \<Rightarrow> \<lparr>raised = Some e, reply = None, world_after = w\<rparr>
      | Inr n \<Rightarrow>
          (case rfile_read n (rfile req) of
             Inl e \<Rightarrow> \<lparr>raised = Some e, reply = None, world_after = w\<rparr>
           | Inr post_data \<Rightarrow>
               (let timestamp = now;
                    data_size = int (length post_data);
                    client_ip = client_address req;
                    w1 = print (U ''['' @ timestamp @ U ''] INTERCEPTED telemetry from '' @ client_ip) w;
                    w2 = print (U ''  Size: '' @ str_int data_size @ U '' bytes'') w1;
                    w3 = print (U ''  Headers: '' @ repr_dict (headers_dict (headers req))) w2;
                    w4 = print_all (analyze_content js req post_data) w3;
                    w5 = file_append (log_entry timestamp req post_data) w4
                in send_json
                     [(U ''status'', U ''ok''),
                      (U ''message'', U ''telemetry received''),
                      (U ''timestamp'', timestamp)] w5)))"


section \<open>Starting the listeners\<close>

text \<open>
  What \<^verbatim>\<open>socketserver.TCPServer((host, port), ...)\<close> does is input: it binds, or it raises an
  \<^verbatim>\<open>OSError\<close> with its \<^verbatim>\<open>errno\<close> (which may be \<^verbatim>\<open>None\<close>) and its text.
\<close>

datatype bind_result = Bound | BindError "int option" pystr

datatype listener = Serving | NotStarted

text \<open>
  \<^verbatim>\<open>start_server\<close> up to the point where the thread either sits in
  \<^verbatim>\<open>serve_forever\<close> or has returned.
\<close>

definition start_server :: "nat \<Rightarrow> pystr \<Rightarrow> bind_result \<Rightarrow> world \<Rightarrow> listener \<times> world" where
  "start_server port server_name r w =
     (case r of
        Bound \<Rightarrow>
          (Serving,
           print (U ''Mock '' @ server_name @ U '' server running on localhost:''
                  @ str_int (int port)) w)
      | BindError errno msg \<Rightarrow>
          (if errno = Some 98
           then (NotStarted,
                 print (U ''Port '' @ str_int (int port) @ U '' already in use - '' @ server_name
                        @ U '' server not started'') w)
           else (NotStarted,
                 print (U ''Error starting '' @ server_name @ U '' server on port ''
                        @ str_int (int port) @ U '': '' @ msg) w)))"

definition servers :: "(nat \<times> pystr) list" where
  "servers =
     [(4317, U ''OpenTelemetry GRPC''),
      (4318, U ''OpenTelemetry HTTP''),
      (16686, U ''Jaeger UI'')]"

text \<open>Lines 110 to 112.\<close>

definition log_header :: "pystr \<Rightarrow> pystr" where
  "log_header now =
     U ''Mock Telemetry Server Log Started: '' @ now @ NL @ replicate 50 61 @ NL"

text \<open>The loop of lines 123 to 128, one thread after the other.\<close>

fun start_all ::
  "(nat \<Rightarrow> bind_result) \<Rightarrow> (nat \<times> pystr) list \<Rightarrow> world \<Rightarrow> (nat \<times> listener) list \<times> world" where
  "start_all bind [] w = ([], w)"
| "start_all bind ((port, name) # rest) w =
     (let (l, w1) = start_server port name (bind port) w;
          (ls, w2) = start_all bind rest w1
      in ((port, l) # ls, w2))"

text \<open>
  \<^verbatim>\<open>main\<close> from line 104 to line 139: the rest of it sleeps until the interrupt and touches
  neither the console nor the file before. \<open>now\<close> is the clock reading of line 111,
  \<open>bind\<close> tells for each port how its bind ends.
\<close>

definition main :: "pystr \<Rightarrow> (nat \<Rightarrow> bind_result) \<Rightarrow> world \<Rightarrow> (nat \<times> listener) list \<times> world" where
  "main now bind w =
     (let w1 = print_all
                 [U ''=== Mock Telemetry Server ==='',
                  U ''This server intercepts and logs telemetry data while preventing CLI errors.'',
                  U ''Press Ctrl+C to stop all servers.'',
                  U ''''] w;
          w2 = file_rewrite (log_header now) w1;
          (ls, w3) = start_all bind servers w2;
          w4 = print_all
                 [U '''',
                  U ''Mock servers started. Monitoring telemetry interception...'',
                  U ''Log file: intercepted_telemetry.log'',
                  U '''',
                  U ''Test with Gemini CLI:'',
                  [32, 32] @ U ''gemini '' @ [39] @ U ''test command'' @ [39],
                  U '''',
                  U ''Watch live interception:'',
                  U ''  tail -f intercepted_telemetry.log'',
                  U ''''] w3
      in (ls, w4))"

section \<open>A run of the process\<close>

text \<open>
  The requests that reach the listeners of one process, in the order in which they are
  handled, each with the clock reading its handler takes. An exception that leaves a handler
  is reported by the socket server on \<^verbatim>\<open>stderr\<close>; the console and the file stay as the
  handler left them.
\<close>

datatype request_event = Post pystr request | Get pystr request




section \<open>Notions used to state the properties\<close>

text \<open>The text of the log file, empty while the file does not exist.\<close>

definition file_text :: "world \<Rightarrow> pystr" where
  "file_text w = (case logfile w of None \<Rightarrow> [] | Some t \<Rightarrow> t)"


text \<open>The text that handling one request adds to the log file.\<close>

fun logged :: "request_event \<Rightarrow> pystr" where
  "logged (Get now req) = []"
| "logged (Post now req) =
     (case content_length req of
        Inl e \<Rightarrow> []
      | Inr n \<Rightarrow>
          (case rfile_read n (rfile req) of
             Inl e \<Rightarrow> []
           | Inr post_data \<Rightarrow> log_entry now req post_data))"




text \<open>How the bind of a port ends up as a listener.\<close>

fun listener_of :: "bind_result \<Rightarrow> listener" where
  "listener_of Bound = Serving"
| "listener_of (BindError errno msg) = NotStarted"

subsection \<open>Concrete inputs\<close>


definition sample_time :: pystr where
  "sample_time = U ''2025-09-06 12:00:00''"

definition fresh_world :: world where
  "fresh_world = \<lparr>console = [], logfile = None\<rparr>"


text \<open>A POST whose \<^verbatim>\<open>Content-Length\<close> is not a number.\<close>

definition bad_length_request :: request where
  "bad_length_request =
     \<lparr>client_address = U ''127.0.0.1'', path = U ''/v1/traces'',
      headers = [(''Content-Length'', ''abc'')], rfile = ''{}''\<rparr>"

text \<open>A POST with two bytes that are not UTF-8, declared as Protocol Buffers.\<close>

definition binary_request :: request where
  "binary_request =
     \<lparr>client_address = U ''127.0.0.1'', path = U ''/v1/traces'',
      headers = [(''Content-Type'', ''application/x-protobuf''), (''Content-Length'', ''2'')],
      rfile = [CHR 0xFF, CHR 0xFE]\<rparr>"



text \<open>Port 4318 is taken, port 4317 may not be bound, port 16686 is free.\<close>

definition sample_bind :: "nat \<Rightarrow> bind_result" where
  "sample_bind port =
     (if port = 4318 then BindError (Some 98) (U ''[Errno 98] Address already in use'')
      else if port = 4317 then BindError (Some 13) (U ''[Errno 13] Permission denied'')
      else Bound)"

section \<open>Facts about the library model and the effects\<close>

lemma print_logfile: "logfile (print s w) = logfile w"
  by (simp add: print_def)


lemma print_all_logfile: "logfile (print_all ls w) = logfile w"
  unfolding print_all_def by (induction ls arbitrary: w) (simp_all add: print_logfile)



lemma hex_digit_ascii: "d < 16 \<Longrightarrow> hex_digit d < 128"
  by (simp add: hex_digit_def)

lemma hex4_ascii: "c \<in> set (hex4 n) \<Longrightarrow> c < 128"
  by (auto simp: hex4_def intro!: hex_digit_ascii)

lemma json_escape_ascii: "c \<in> set (json_escape n) \<Longrightarrow> c < 128"
  by (auto simp: json_escape_def dest: hex4_ascii split: if_splits)

lemma json_dumps_str_ascii: "c \<in> set (json_dumps_str s) \<Longrightarrow> c < 128"
  by (auto simp: json_dumps_str_def dest: json_escape_ascii)

lemma U_ascii_const: "c \<in> set (U '', '') \<Longrightarrow> c < 128" "c \<in> set (U '': '') \<Longrightarrow> c < 128"
  "c \<in> set (U ''{'') \<Longrightarrow> c < 128" "c \<in> set (U ''}'') \<Longrightarrow> c < 128"
  by (auto simp: U_def)

lemma join_set: "set (join sep xs) \<subseteq> set sep \<union> \<Union> (set ` set xs)"
  by (induction sep xs rule: join.induct) auto

lemma json_dumps_ascii: "c \<in> set (json_dumps d) \<Longrightarrow> c < 128"
proof -
  assume c: "c \<in> set (json_dumps d)"
  let ?items = "map (\<lambda>(k, v). json_dumps_str k @ U '': '' @ json_dumps_str v) d"
  have item: "\<And>x c. x \<in> set ?items \<Longrightarrow> c \<in> set x \<Longrightarrow> c < 128"
    by (auto dest: json_dumps_str_ascii U_ascii_const)
  from c consider "c \<in> set (U ''{'')" | "c \<in> set (join (U '', '') ?items)" | "c \<in> set (U ''}'')"
    unfolding json_dumps_def by auto
  then show ?thesis
  proof cases
    case 2
    with join_set[of "U '', ''" ?items] have "c \<in> set (U '', '') \<or> (\<exists>x\<in>set ?items. c \<in> set x)"
      by auto
    then show ?thesis using item U_ascii_const by blast
  qed (auto dest: U_ascii_const)
qed

lemma str_encode_ascii: "(\<And>c. c \<in> set s \<Longrightarrow> c < 128) \<Longrightarrow> str_encode s = Inr (map char_of s)"
  by (induction s) (simp_all add: encode_cp_def)

lemma send_json_ok:
  "send_json d w = \<lparr>raised = None,
      reply = Some \<lparr>resp_status = 200, resp_headers = json_headers,
                    resp_body = map char_of (json_dumps d)\<rparr>,
      world_after = w\<rparr>"
  by (simp add: send_json_def str_encode_ascii json_dumps_ascii)









section \<open>The GET handler\<close>




section \<open>The POST handler\<close>

lemma file_append_text: "logfile (file_append t w) = Some (file_text w @ t)"
  by (simp add: file_append_def file_text_def split: option.splits)

lemma do_POST_read:
  assumes "content_length req = Inr n" and "rfile_read n (rfile req) = Inr d"
  shows "do_POST js now req w =
     \<lparr>raised = None,
      reply = Some \<lparr>resp_status = 200, resp_headers = json_headers,
                    resp_body = map char_of (json_dumps
                      [(U ''status'', U ''ok''), (U ''message'', U ''telemetry received''),
                       (U ''timestamp'', now)])\<rparr>,
      world_after =
        file_append (log_entry now req d)
          (print_all (analyze_content js req d)
            (print (U ''  Headers: '' @ repr_dict (headers_dict (headers req)))
              (print (U ''  Size: '' @ str_int (int (length d)) @ U '' bytes'')
                (print (U ''['' @ now @ U ''] INTERCEPTED telemetry from '' @ client_address req)
                   w))))\<rparr>"
  using assms by (simp add: do_POST_def Let_def send_json_ok)

lemma do_POST_length_error:
  "content_length req = Inl e \<Longrightarrow> do_POST js now req w = \<lparr>raised = Some e, reply = None, world_after = w\<rparr>"
  by (simp add: do_POST_def)


lemma bad_length: "content_length bad_length_request
   = Inl (ValueError (U ''invalid literal for int() with base 10: '' @ [39] @ U ''abc'' @ [39]))"
  by code_simp


lemma binary_length: "content_length binary_request = Inr 2"
  by code_simp


text \<open>
  What does hold of the first step of \<^verbatim>\<open>do_POST\<close>: without a \<^verbatim>\<open>Content-Length\<close> header
  the body is empty and is logged as such; with a length that \<^verbatim>\<open>int\<close> accepts and that
  the stream covers, the body is exactly that many bytes.
\<close>

lemma content_length_absent:
  "headers_get (headers req) ''Content-Length'' = None \<Longrightarrow>
   content_length req = Inr 0 \<and> rfile_read 0 (rfile req) = Inr []
   \<and> raised (do_POST js now req w) = None
   \<and> logged (Post now req) = log_entry now req []"
  by (simp add: content_length_def rfile_read_def do_POST_def Let_def send_json_ok)

lemma body_is_prefix:
  "content_length req = Inr n \<Longrightarrow> 0 \<le> n \<Longrightarrow> nat n \<le> length (rfile req) \<Longrightarrow> n < 2 ^ 63 \<Longrightarrow>
   rfile_read n (rfile req) = Inr (take (nat n) (rfile req))
   \<and> length (take (nat n) (rfile req)) = nat n"
  by (simp add: rfile_read_def)

text \<open>
  Claim C1 says that every POST request is answered with status 200 whatever its headers
  are. On a request whose \<^verbatim>\<open>Content-Length\<close> is \<^verbatim>\<open>abc\<close> the conversion of line 17
  raises \<^verbatim>\<open>ValueError\<close> and the handler ends without any answer.
\<close>

theorem do_POST_bad_length_no_reply:
  "raised (do_POST js now bad_length_request w)
     = Some (ValueError (U ''invalid literal for int() with base 10: '' @ [39] @ U ''abc'' @ [39]))
   \<and> reply (do_POST js now bad_length_request w) = None"
  by (simp add: do_POST_length_error[OF bad_length])

text \<open>
  Claim C2 says that a \<^verbatim>\<open>Content-Length\<close> that is not a number is treated as a body of
  length zero. On such a request the header is found, its conversion raises, and the handler
  ends before it reads, prints or logs anything: no entry with byte count 0 is written.
\<close>

theorem bad_length_not_zero_length:
  "headers_get (headers bad_length_request) ''Content-Length'' = Some ''abc''
   \<and> content_length bad_length_request
       = Inl (ValueError (U ''invalid literal for int() with base 10: '' @ [39] @ U ''abc'' @ [39]))
   \<and> world_after (do_POST js now bad_length_request w) = w
   \<and> logged (Post now bad_length_request) = []"
  by (simp add: do_POST_length_error[OF bad_length] bad_length) (simp add: bad_length_request_def lower_def)

subsection \<open>The log entry of a body that is not UTF-8\<close>

lemma binary_read: "rfile_read 2 (rfile binary_request) = Inr [CHR 0xFF, CHR 0xFE]"
  by code_simp

lemma binary_strict:
  \<open>bytes_decode Strict [CHR 0xFF, CHR 0xFE]
   = Inl (UnicodeDecodeError (U '''utf-8' codec can't decode byte 0xff in position 0: invalid start byte''))\<close>
  by code_simp

lemma binary_ignore: "bytes_decode Ignore [CHR 0xFF, CHR 0xFE] = Inr []"
  by code_simp

lemma binary_headers:
  \<open>repr_dict (headers_dict (headers binary_request))
   = U ''{'Content-Type': 'application/x-protobuf', 'Content-Length': '2'}''\<close>
  by code_simp

text \<open>For every body the entry holds the line \<^verbatim>\<open>Data: ...\<close>: the branch of line 52 is dead.\<close>

lemma log_entry_data:
  "log_entry now req d =
     now @ U '' - '' @ str_int (int (length d)) @ U '' bytes from '' @ client_address req @ NL
     @ U ''Headers: '' @ repr_dict (headers_dict (headers req)) @ NL
     @ U ''Data: '' @ decode_ignore (utf8_chunks (map of_char d)) @ NL
     @ U ''---'' @ NL"
  by (simp add: log_entry_def)

lemma str_int_2: "str_int 2 = U ''2''"
  by code_simp

lemma client_binary: "client_address binary_request = U ''127.0.0.1''"
  by (simp add: binary_request_def)

lemma file_text_print: "file_text (print s w) = file_text w"
  by (simp add: file_text_def print_logfile)

lemma file_text_print_all: "file_text (print_all ls w) = file_text w"
  by (simp add: file_text_def print_all_logfile)

lemma do_POST_logfile:
  assumes "content_length req = Inr n" and "rfile_read n (rfile req) = Inr d"
  shows "logfile (world_after (do_POST js now req w)) = Some (file_text w @ log_entry now req d)"
  by (simp add: do_POST_read[OF assms] file_append_text file_text_print file_text_print_all)

text \<open>
  Claim C3 says that a body that is not UTF-8 is logged as a placeholder noting binary data.
  \<^verbatim>\<open>decode('utf-8', errors='ignore')\<close> never raises, so the \<^verbatim>\<open>except\<close> branch of line 52
  that writes \<^verbatim>\<open>Binary data: N bytes\<close> is never taken: for the two bytes FF FE, which the
  strict decoder refuses, the handler does not raise and the entry holds the line
  \<^verbatim>\<open>Data: \<close> with the undecodable bytes dropped; the byte count stands in the first line.
\<close>

theorem binary_body_logged_as_text:
  \<open>bytes_decode Strict (rfile binary_request)
     = Inl (UnicodeDecodeError (U '''utf-8' codec can't decode byte 0xff in position 0: invalid start byte''))
   \<and> raised (do_POST js now binary_request w) = None
   \<and> logfile (world_after (do_POST js now binary_request w))
       = Some (file_text w
           @ now @ U '' - 2 bytes from 127.0.0.1'' @ NL
           @ U ''Headers: {'Content-Type': 'application/x-protobuf', 'Content-Length': '2'}'' @ NL
           @ U ''Data: '' @ NL
           @ U ''---'' @ NL)\<close>
proof -
  have rf: "rfile binary_request = [CHR 0xFF, CHR 0xFE]"
    by (simp add: binary_request_def)
  have entry: "log_entry now binary_request [CHR 0xFF, CHR 0xFE]
      = now @ U '' - 2 bytes from 127.0.0.1'' @ NL
        @ U ''Headers: {'Content-Type': 'application/x-protobuf', 'Content-Length': '2'}'' @ NL
        @ U ''Data: '' @ NL @ U ''---'' @ NL"
    using binary_ignore
    by (simp add: log_entry_def binary_headers str_int_2 client_binary) (simp add: U_def)
  have strict: "bytes_decode Strict (rfile binary_request)
     = Inl (UnicodeDecodeError (U '''utf-8' codec can't decode byte 0xff in position 0: invalid start byte''))"
    unfolding rf by (rule binary_strict)
  have post: "raised (do_POST js now binary_request w) = None"
    by (simp add: do_POST_read[OF binary_length binary_read])
  have log: "logfile (world_after (do_POST js now binary_request w))
       = Some (file_text w @ log_entry now binary_request [CHR 0xFF, CHR 0xFE])"
    by (rule do_POST_logfile[OF binary_length binary_read])
  show ?thesis
    using strict post log unfolding entry by blast
qed

subsection \<open>The response does not depend on the request\<close>







subsection \<open>The console report\<close>






subsection \<open>The shape of a log entry\<close>

















section \<open>The log file over the life of the process\<close>



lemma start_server_listener: "fst (start_server port name r w) = listener_of r"
  by (cases r) (simp_all add: start_server_def)

lemma start_all_listeners:
  "fst (start_all bind ss w) = map (\<lambda>(port, name). (port, listener_of (bind port))) ss"
proof (induction ss arbitrary: w)
  case Nil
  show ?case by simp
next
  case (Cons s ss)
  obtain port name where s: "s = (port, name)" by (cases s)
  show ?case
    by (simp add: s split_beta Cons start_server_listener)
qed


lemma main_listeners:
  "fst (main now bind w) = map (\<lambda>(port, name). (port, listener_of (bind port))) servers"
  by (simp add: main_def Let_def split_beta start_all_listeners)







section \<open>Bind failures\<close>

lemma d1: "str_int 4318 = [52, 51, 49, 56]"
  by (simp add: str_int_def nat_digits.simps U_def)

lemma d2: "str_int 4317 = [52, 51, 49, 55]"
  by (simp add: str_int_def nat_digits.simps U_def)

lemma e1: "print (U ''Port '' @ str_int (int 4318) @ U '' already in use - ''
               @ U ''OpenTelemetry HTTP'' @ U '' server not started'') fresh_world
      = \<lparr>console = [U ''Port 4318 already in use - OpenTelemetry HTTP server not started''],
           logfile = None\<rparr>"
  by (simp add: print_def fresh_world_def d1 U_def)

lemma e2: "print (U ''Error starting '' @ U ''OpenTelemetry GRPC'' @ U '' server on port ''
               @ str_int (int 4317) @ U '': '' @ U ''[Errno 13] Permission denied'') fresh_world
      = \<lparr>console = [U ''Error starting OpenTelemetry GRPC server on port 4317: [Errno 13] Permission denied''],
           logfile = None\<rparr>"
  by (simp add: print_def fresh_world_def d2 U_def)

lemma e3: "map (\<lambda>(port, name). (port, listener_of (sample_bind port))) servers
      = [(4317, NotStarted), (4318, NotStarted), (16686, Serving)]"
  by (simp add: servers_def sample_bind_def)

text \<open>
  Claim C7. When the bind of a port fails with \<^verbatim>\<open>errno\<close> 98 (address already in use),
  \<^verbatim>\<open>start_server\<close> prints a warning with the port and the label and returns; on any other
  \<^verbatim>\<open>OSError\<close> it prints an error with the label, the port and the text of the error and
  returns. Whether a listener of \<^verbatim>\<open>main\<close> serves depends on the bind of its own port
  only: a failure leaves the others as they are.
\<close>

theorem bind_failure_skips_listener:
  "start_server port name (BindError (Some 98) msg) w
     = (NotStarted,
        print (U ''Port '' @ str_int (int port) @ U '' already in use - '' @ name
               @ U '' server not started'') w)
   \<and> (errno \<noteq> Some 98 \<longrightarrow>
        start_server port name (BindError errno msg) w
          = (NotStarted,
             print (U ''Error starting '' @ name @ U '' server on port '' @ str_int (int port)
                    @ U '': '' @ msg) w))
   \<and> fst (start_all bind ss w) = map (\<lambda>(port, name). (port, listener_of (bind port))) ss
   \<and> fst (main now bind w) = map (\<lambda>(port, name). (port, listener_of (bind port))) servers"
  by (simp add: start_server_def start_all_listeners main_listeners)

theorem bind_failure_skips_listener_witness:
  "Some 13 \<noteq> Some (98::int)
   \<and> start_server 4318 (U ''OpenTelemetry HTTP'')
        (BindError (Some 98) (U ''[Errno 98] Address already in use'')) fresh_world
       = (NotStarted,
          \<lparr>console = [U ''Port 4318 already in use - OpenTelemetry HTTP server not started''],
           logfile = None\<rparr>)
   \<and> start_server 4317 (U ''OpenTelemetry GRPC'')
        (BindError (Some 13) (U ''[Errno 13] Permission denied'')) fresh_world
       = (NotStarted,
          \<lparr>console = [U ''Error starting OpenTelemetry GRPC server on port 4317: [Errno 13] Permission denied''],
           logfile = None\<rparr>)
   \<and> fst (main sample_time sample_bind fresh_world)
       = [(4317, NotStarted), (4318, NotStarted), (16686, Serving)]"
proof -
  note t1 = bind_failure_skips_listener
    [of 4318 "U ''OpenTelemetry HTTP''" "U ''[Errno 98] Address already in use''" fresh_world
        "Some 13" sample_bind servers sample_time]
  note t2 = bind_failure_skips_listener
    [of 4317 "U ''OpenTelemetry GRPC''" "U ''[Errno 13] Permission denied''" fresh_world
        "Some 13" sample_bind servers sample_time]
  have ne: "Some 13 \<noteq> Some (98::int)"
    by simp
  have a1: "start_server 4318 (U ''OpenTelemetry HTTP'')
        (BindError (Some 98) (U ''[Errno 98] Address already in use'')) fresh_world
       = (NotStarted,
          \<lparr>console = [U ''Port 4318 already in use - OpenTelemetry HTTP server not started''],
           logfile = None\<rparr>)"
    using t1[THEN conjunct1] unfolding e1 .
  have a2: "start_server 4317 (U ''OpenTelemetry GRPC'')
        (BindError (Some 13) (U ''[Errno 13] Permission denied'')) fresh_world
       = (NotStarted,
          \<lparr>console = [U ''Error starting OpenTelemetry GRPC server on port 4317: [Errno 13] Permission denied''],
           logfile = None\<rparr>)"
    using t2[THEN conjunct2, THEN conjunct1, rule_format, OF ne] unfolding e2 .
  have a3: "fst (main sample_time sample_bind fresh_world)
       = [(4317, NotStarted), (4318, NotStarted), (16686, Serving)]"
    using t1[THEN conjunct2, THEN conjunct2, THEN conjunct2] unfolding e3 .
  show ?thesis
    using ne a1 a2 a3 by (intro conjI)
qed

end
